theory Spec2Isabelle
  imports Main "HOL-Library.Word"
begin

unbundle bit_operations_syntax

section \<open>The registration bridge of sqlite3/func.c\<close>

text \<open>
  func.c holds four entry points. Each is one statement, a tail call into the SQL engine:
  \<^verbatim>\<open>return sqlite3_create_..._v2(db, zName, ..., go_destroy);\<close>
  The file takes no decision of its own: it has no branch, no loop and no local state. What
  it fixes is which engine entry point is called and with which arguments. The model of an
  entry point is therefore the engine call it makes; the status the C function returns is
  the status the engine gives for that call (\<open>perform\<close> below).
\<close>

subsection \<open>C types\<close>

text \<open>
  C's \<^verbatim>\<open>int\<close> (arity, flags, encoding, status): 32 bits, two's complement. \<open>sint\<close>
  reads the signed value, so the arity \<open>-1\<close> is the word \<open>0xFFFFFFFF\<close>; \<open>OR\<close> is
  C's \<^verbatim>\<open>|\<close>.
\<close>

type_synonym c_int = "32 word"

text \<open>
  \<^verbatim>\<open>sqlite3 *\<close> and \<^verbatim>\<open>void *\<close> are addresses the bridge never looks into;
  \<^verbatim>\<open>const char *zName\<close> is a NUL-terminated string or the NULL pointer (\<open>None\<close>).
\<close>

type_synonym sqlite3 = nat
type_synonym void_ptr = nat
type_synonym c_string = "string option"

text \<open>
  The seven callbacks func.c declares (lines 5 to 11) and leaves to the host runtime to
  define. The bridge only takes their addresses; a function pointer argument is one of
  them or NULL (\<open>None\<close>).
\<close>

datatype callback =
  go_compare | go_func | go_step | go_final | go_value | go_inverse | go_destroy

type_synonym fn_ptr = "callback option"

subsection \<open>The engine's registration interface\<close>

text \<open>
  The three functions of sqlite3.h that func.c calls, with their parameters in the order
  of the C prototypes. A value of this type is one call: the function and its arguments.
\<close>

datatype engine_call =
    sqlite3_create_collation_v2
      sqlite3 c_string c_int void_ptr fn_ptr fn_ptr
      \<comment> \<open>db, zName, eTextRep, pArg, xCompare, xDestroy\<close>
  | sqlite3_create_function_v2
      sqlite3 c_string c_int c_int void_ptr fn_ptr fn_ptr fn_ptr fn_ptr
      \<comment> \<open>db, zFunctionName, nArg, eTextRep, pApp, xFunc, xStep, xFinal, xDestroy\<close>
  | sqlite3_create_window_function
      sqlite3 c_string c_int c_int void_ptr fn_ptr fn_ptr fn_ptr fn_ptr fn_ptr
      \<comment> \<open>db, zFunctionName, nArg, eTextRep, pApp, xStep, xFinal, xValue, xInverse, xDestroy\<close>

text \<open>The callback parameters of the three prototypes.\<close>

datatype slot = xCompare | xFunc | xStep | xFinal | xValue | xInverse | xDestroy

text \<open>
  What a call passes in a callback parameter: \<open>None\<close> when the argument is NULL, and
  also when the called function has no such parameter.
\<close>

fun wired :: "engine_call \<Rightarrow> slot \<Rightarrow> fn_ptr" where
  "wired (sqlite3_create_collation_v2 db zName enc pArg fcompare fdestroy) s =
     (case s of xCompare \<Rightarrow> fcompare | xDestroy \<Rightarrow> fdestroy | _ \<Rightarrow> None)"
| "wired (sqlite3_create_function_v2 db zName nArg enc pApp ffunc fstep ffinal fdestroy) s =
     (case s of xFunc \<Rightarrow> ffunc | xStep \<Rightarrow> fstep | xFinal \<Rightarrow> ffinal
      | xDestroy \<Rightarrow> fdestroy
      | _ \<Rightarrow> None)"
| "wired (sqlite3_create_window_function db zName nArg enc pApp fstep ffinal fvalue finverse fdestroy) s =
     (case s of xStep \<Rightarrow> fstep | xFinal \<Rightarrow> ffinal | xValue \<Rightarrow> fvalue
      | xInverse \<Rightarrow> finverse | xDestroy \<Rightarrow> fdestroy | _ \<Rightarrow> None)"

text \<open>The other arguments of a call.\<close>

fun connection :: "engine_call \<Rightarrow> sqlite3" where
  "connection (sqlite3_create_collation_v2 db zName enc pArg fcompare fdestroy) = db"
| "connection (sqlite3_create_function_v2 db zName nArg enc pApp ffunc fstep ffinal fdestroy) = db"
| "connection (sqlite3_create_window_function db zName nArg enc pApp fstep ffinal fvalue finverse fdestroy) = db"

fun name_arg :: "engine_call \<Rightarrow> c_string" where
  "name_arg (sqlite3_create_collation_v2 db zName enc pArg fcompare fdestroy) = zName"
| "name_arg (sqlite3_create_function_v2 db zName nArg enc pApp ffunc fstep ffinal fdestroy) = zName"
| "name_arg (sqlite3_create_window_function db zName nArg enc pApp fstep ffinal fvalue finverse fdestroy) = zName"

text \<open>A collation has no arity.\<close>

fun arity_arg :: "engine_call \<Rightarrow> c_int option" where
  "arity_arg (sqlite3_create_collation_v2 db zName enc pArg fcompare fdestroy) = None"
| "arity_arg (sqlite3_create_function_v2 db zName nArg enc pApp ffunc fstep ffinal fdestroy) = Some nArg"
| "arity_arg (sqlite3_create_window_function db zName nArg enc pApp fstep ffinal fvalue finverse fdestroy) =
     Some nArg"

fun eTextRep :: "engine_call \<Rightarrow> c_int" where
  "eTextRep (sqlite3_create_collation_v2 db zName enc pArg fcompare fdestroy) = enc"
| "eTextRep (sqlite3_create_function_v2 db zName nArg enc pApp ffunc fstep ffinal fdestroy) = enc"
| "eTextRep (sqlite3_create_window_function db zName nArg enc pApp fstep ffinal fvalue finverse fdestroy) = enc"

fun app_data :: "engine_call \<Rightarrow> void_ptr" where
  "app_data (sqlite3_create_collation_v2 db zName enc pArg fcompare fdestroy) = pArg"
| "app_data (sqlite3_create_function_v2 db zName nArg enc pApp ffunc fstep ffinal fdestroy) = pApp"
| "app_data (sqlite3_create_window_function db zName nArg enc pApp fstep ffinal fvalue finverse fdestroy) = pApp"

subsection \<open>The four entry points\<close>

text \<open>
  \<open>SQLITE_UTF8\<close> is a macro of sqlite3.h, which is not part of the bridge: every entry
  point takes its value as its first parameter. The other parameters are those of the C
  function, in its order.
\<close>

definition sqlite3_create_go_collation ::
  "c_int \<Rightarrow> sqlite3 \<Rightarrow> c_string \<Rightarrow> void_ptr \<Rightarrow> engine_call" where
  "sqlite3_create_go_collation SQLITE_UTF8 db zName pApp =
     sqlite3_create_collation_v2 db zName SQLITE_UTF8 pApp (Some go_compare)
       (Some go_destroy)"

definition sqlite3_create_go_function ::
  "c_int \<Rightarrow> sqlite3 \<Rightarrow> c_string \<Rightarrow> c_int \<Rightarrow> c_int \<Rightarrow> void_ptr \<Rightarrow> engine_call" where
  "sqlite3_create_go_function SQLITE_UTF8 db zName nArg flags pApp =
     sqlite3_create_function_v2 db zName nArg (SQLITE_UTF8 OR flags) pApp
       (Some go_func) None None (Some go_destroy)"

definition sqlite3_create_go_window_function ::
  "c_int \<Rightarrow> sqlite3 \<Rightarrow> c_string \<Rightarrow> c_int \<Rightarrow> c_int \<Rightarrow> void_ptr \<Rightarrow> engine_call" where
  "sqlite3_create_go_window_function SQLITE_UTF8 db zName nArg flags pApp =
     sqlite3_create_window_function db zName nArg (SQLITE_UTF8 OR flags)
       pApp (Some go_step) (Some go_final) None None
       (Some go_destroy)"

definition sqlite3_create_go_aggregate_function ::
  "c_int \<Rightarrow> sqlite3 \<Rightarrow> c_string \<Rightarrow> c_int \<Rightarrow> c_int \<Rightarrow> void_ptr \<Rightarrow> engine_call" where
  "sqlite3_create_go_aggregate_function SQLITE_UTF8 db zName nArg flags pApp =
     sqlite3_create_window_function db zName nArg (SQLITE_UTF8 OR flags)
       pApp (Some go_step) (Some go_final) (Some go_value)
       (Some go_inverse) (Some go_destroy)"

subsection \<open>Running a registration\<close>

text \<open>
  The engine is not part of the bridge. It is a parameter here: any function from a call
  and the engine's state to a status code and the new state. The C function returns the
  engine's return value, so running an entry point is running its call.
\<close>

type_synonym 'w engine = "engine_call \<Rightarrow> 'w \<Rightarrow> c_int \<times> 'w"

definition perform :: "'w engine \<Rightarrow> engine_call \<Rightarrow> 'w \<Rightarrow> c_int \<times> 'w" where
  "perform engine c w = engine c w"

text \<open>
  The registration contract as the specification words it: the name is present and not
  empty, the arity is at least \<open>-1\<close>, and the flags have no bit outside a supported set.
  (The specification does not say what a valid identifier is; that part is left out, so an
  input that breaks this contract breaks the specification's too.)
\<close>

definition contract :: "c_int \<Rightarrow> c_string \<Rightarrow> c_int \<Rightarrow> c_int \<Rightarrow> bool" where
  "contract supported zName nArg flags =
     ((case zName of None \<Rightarrow> False | Some n \<Rightarrow> n \<noteq> [])
      \<and> - 1 \<le> sint nArg \<and> flags AND NOT supported = 0)"

text \<open>
  The engine's success status, SQLITE_OK of sqlite3.h. func.c never names it; below, only
  whether a status equals it matters.
\<close>

definition SQLITE_OK :: c_int where
  "SQLITE_OK = 0"

text \<open>
  An engine that checks nothing: it keeps every call it receives as a registration and
  answers the status \<open>ok\<close>. It stands in for the engine where a statement needs a concrete
  one.
\<close>

definition accepting :: "c_int \<Rightarrow> engine_call list engine" where
  "accepting ok c regs = (ok, regs @ [c])"

section \<open>The engine's naming table, from the specification\<close>

text \<open>
  What the engine does with a registration, when it calls back and when it lets a handle
  go is not in func.c. This section models it from the specification, for one connection.
  Whether the engine accepts a call is left open: \<open>verdict\<close>, a parameter, gives the
  status for a call in a state.
\<close>

text \<open>
  Modelled from the spec: a registration is known to the engine by its name and arity
  (section 3, Function Registration); a collation has a name only.
\<close>

type_synonym key = "c_string \<times> c_int option"

definition key_of :: "engine_call \<Rightarrow> key" where
  "key_of c = (name_arg c, arity_arg c)"

text \<open>
  Modelled from the spec: what happens to a handle, in order of time. \<open>Owned h\<close>: a
  registration succeeded and the engine took ownership of \<open>h\<close> (section 4.1).
  \<open>Called f h\<close>: the engine invoked callback \<open>f\<close> with \<open>h\<close>; for \<open>go_destroy\<close> that is the
  release of the handle (section 4.3).
\<close>

datatype event = Owned void_ptr | Called callback void_ptr

text \<open>
  Modelled from the spec: the naming table of one connection (section 9 asks for it as
  explicit state of the connection), with the history of the events so far.
\<close>

record conn =
  table :: "(key \<times> engine_call) list"
  history :: "event list"

text \<open>
  Modelled from the spec: letting a registration go fires the destroy callback it was
  registered with, on its handle (section 4.3).
\<close>

definition release :: "engine_call \<Rightarrow> event list" where
  "release c = (case wired c xDestroy of None \<Rightarrow> [] | Some d \<Rightarrow> [Called d (app_data c)])"

definition released :: "(key \<times> engine_call) list \<Rightarrow> event list" where
  "released rs = concat (map (\<lambda>r. release (snd r)) rs)"

text \<open>
  Modelled from the spec: the engine's side of a registration call. On failure nothing is
  transferred and nothing changes (section 4.1, "On failure the bridge does not transfer
  ownership"). On success the registration replaces any earlier one under the same name
  and arity, the old handle is destroyed first, and then the engine owns the new one
  (section 3, "atomically replaces any prior registration, triggering destroy of the old
  handle"; section 4.1, "destroys the old handle synchronously before the new one becomes
  active").
\<close>

definition engine_register :: "(engine_call \<Rightarrow> conn \<Rightarrow> c_int) \<Rightarrow> conn engine" where
  "engine_register verdict c s =
     (if verdict c s \<noteq> SQLITE_OK then (verdict c s, s)
      else (SQLITE_OK,
        \<lparr>table = (key_of c, c) # filter (\<lambda>r. fst r \<noteq> key_of c) (table s),
         history = history s
           @ released (filter (\<lambda>r. fst r = key_of c) (table s))
           @ [Owned (app_data c)]\<rparr>))"

text \<open>
  Modelled from the spec: a statement that uses the registration under a key makes the
  engine invoke one of its callbacks with its handle. Callbacks run to their end on the
  engine's thread (section 5), so a use is one event and no call is in flight between two
  steps. No query path fires the destroy callback (section 4.3).
\<close>

definition engine_use :: "key \<Rightarrow> slot \<Rightarrow> conn \<Rightarrow> conn" where
  "engine_use k sl s =
     (case map_of (table s) k of
        None \<Rightarrow> s
      | Some c \<Rightarrow>
          (case (if sl = xDestroy then None else wired c sl) of
             None \<Rightarrow> s
           | Some f \<Rightarrow> s\<lparr>history := history s @ [Called f (app_data c)]\<rparr>))"

text \<open>
  Modelled from the spec: engine shutdown lets every registration go (section 4.3,
  "triggered by registration replacement or engine shutdown").
\<close>

definition engine_shutdown :: "conn \<Rightarrow> conn" where
  "engine_shutdown s =
     \<lparr>table = [], history = history s @ released (table s)\<rparr>"

subsection \<open>Histories of a connection driven through the bridge\<close>

text \<open>
  A call of one of the four entry points of func.c, with its arguments, and the engine
  call it makes.
\<close>

datatype bridge_call =
    Collation sqlite3 c_string void_ptr
  | Scalar sqlite3 c_string c_int c_int void_ptr
  | Window sqlite3 c_string c_int c_int void_ptr
  | Aggregate sqlite3 c_string c_int c_int void_ptr

fun entry :: "c_int \<Rightarrow> bridge_call \<Rightarrow> engine_call" where
  "entry U (Collation db zName pApp) = sqlite3_create_go_collation U db zName pApp"
| "entry U (Scalar db zName nArg flags pApp) =
     sqlite3_create_go_function U db zName nArg flags pApp"
| "entry U (Window db zName nArg flags pApp) =
     sqlite3_create_go_window_function U db zName nArg flags pApp"
| "entry U (Aggregate db zName nArg flags pApp) =
     sqlite3_create_go_aggregate_function U db zName nArg flags pApp"

text \<open>
  What happens to a connection: the host registers through the bridge, a statement uses a
  registration, or the engine shuts down.
\<close>

datatype action = Register bridge_call | Use key slot | Shutdown

fun step :: "c_int \<Rightarrow> (engine_call \<Rightarrow> conn \<Rightarrow> c_int) \<Rightarrow> action \<Rightarrow> conn \<Rightarrow> conn" where
  "step U verdict (Register b) s = snd (perform (engine_register verdict) (entry U b) s)"
| "step U verdict (Use k sl) s = engine_use k sl s"
| "step U verdict Shutdown s = engine_shutdown s"

definition run ::
  "c_int \<Rightarrow> (engine_call \<Rightarrow> conn \<Rightarrow> c_int) \<Rightarrow> action list \<Rightarrow> conn \<Rightarrow> conn" where
  "run U verdict acts s = fold (step U verdict) acts s"

definition start :: conn where
  "start = \<lparr>table = [], history = []\<rparr>"

text \<open>
  The caller's side of an entry-point call: the handle it passes (\<^verbatim>\<open>pApp\<close>), and the
  name and arity it registers under (\<^verbatim>\<open>zName\<close>, \<^verbatim>\<open>nArg\<close>; a collation has a name
  only).
\<close>

fun handle_of :: "bridge_call \<Rightarrow> void_ptr" where
  "handle_of (Collation db zName pApp) = pApp"
| "handle_of (Scalar db zName nArg flags pApp) = pApp"
| "handle_of (Window db zName nArg flags pApp) = pApp"
| "handle_of (Aggregate db zName nArg flags pApp) = pApp"

fun name_and_arity :: "bridge_call \<Rightarrow> key" where
  "name_and_arity (Collation db zName pApp) = (zName, None)"
| "name_and_arity (Scalar db zName nArg flags pApp) = (zName, Some nArg)"
| "name_and_arity (Window db zName nArg flags pApp) = (zName, Some nArg)"
| "name_and_arity (Aggregate db zName nArg flags pApp) = (zName, Some nArg)"

text \<open>An entry-point call succeeds when the status it returns is SQLITE_OK.\<close>

definition succeeds :: "c_int \<Rightarrow> (engine_call \<Rightarrow> conn \<Rightarrow> c_int) \<Rightarrow> bridge_call \<Rightarrow> conn \<Rightarrow> bool" where
  "succeeds U verdict b s = (fst (perform (engine_register verdict) (entry U b) s) = SQLITE_OK)"


text \<open>A verdict that accepts every call.\<close>

definition accept_all :: "engine_call \<Rightarrow> conn \<Rightarrow> c_int" where
  "accept_all c s = SQLITE_OK"

subsection \<open>Invariants of a connection\<close>

text \<open>
  A call as the bridge makes them: go_destroy is the destructor and is wired nowhere else.
\<close>

definition bridge_made :: "engine_call \<Rightarrow> bool" where
  "bridge_made c =
     (wired c xDestroy = Some go_destroy
      \<and> wired c xCompare \<noteq> Some go_destroy \<and> wired c xFunc \<noteq> Some go_destroy
      \<and> wired c xStep \<noteq> Some go_destroy \<and> wired c xFinal \<noteq> Some go_destroy
      \<and> wired c xValue \<noteq> Some go_destroy \<and> wired c xInverse \<noteq> Some go_destroy)"

text \<open>The handles the engine owns now.\<close>

definition handles :: "conn \<Rightarrow> void_ptr list" where
  "handles s = map (\<lambda>r. app_data (snd r)) (table s)"



definition unique_keys :: "conn \<Rightarrow> bool" where
  "unique_keys s = distinct (map fst (table s))"

text \<open>Every handle that was called or is owned has been handed over before.\<close>

definition accounted :: "conn \<Rightarrow> bool" where
  "accounted s =
     ((\<forall>f h. Called f h \<in> set (history s) \<longrightarrow> Owned h \<in> set (history s))
      \<and> (\<forall>r\<in>set (table s). Owned (app_data (snd r)) \<in> set (history s)))"

section \<open>What each entry point hands to the engine\<close>

text \<open>
  C7. The scalar entry point installs the scalar-call callback only: the step and final
  parameters of the engine call are NULL, so a scalar registration has no aggregate path.
\<close>

theorem scalar_installs_only_go_func:
  "wired (sqlite3_create_go_function SQLITE_UTF8 db zName nArg flags pApp) xFunc = Some go_func
   \<and> wired (sqlite3_create_go_function SQLITE_UTF8 db zName nArg flags pApp) xStep = None
   \<and> wired (sqlite3_create_go_function SQLITE_UTF8 db zName nArg flags pApp) xFinal = None"
  by (simp add: sqlite3_create_go_function_def)

text \<open>
  C8. The collation entry point installs a comparator-only extension: the engine receives
  go_compare as the comparator and go_destroy as the destructor, and no scalar, step,
  final, value or inverse callback.
\<close>

theorem collation_installs_comparator_only:
  "wired (sqlite3_create_go_collation SQLITE_UTF8 db zName pApp) =
     (\<lambda>s. None)(xCompare := Some go_compare, xDestroy := Some go_destroy)"
proof (rule ext)
  fix s
  show "wired (sqlite3_create_go_collation SQLITE_UTF8 db zName pApp) s =
          ((\<lambda>s. None)(xCompare := Some go_compare, xDestroy := Some go_destroy)) s"
    by (cases s) (simp_all add: sqlite3_create_go_collation_def)
qed

text \<open>
  C9. A collation is always registered with the UTF-8 text encoding: the entry point has
  no flags or encoding parameter, and the encoding argument of the engine call is
  SQLITE_UTF8 itself, whatever the connection, the name and the handle.
\<close>

theorem collation_encoding_is_UTF8:
  "eTextRep (sqlite3_create_go_collation SQLITE_UTF8 db zName pApp) = SQLITE_UTF8"
  by (simp add: sqlite3_create_go_collation_def)

text \<open>
  C4. For the scalar, the window and the aggregate entry point, the flag word handed to the
  engine is the caller's flags ORed with SQLITE_UTF8: a bit is set in it exactly when it is
  set in SQLITE_UTF8 or in the caller's flags. No caller bit is dropped, and no bit outside
  SQLITE_UTF8 is added.
\<close>

theorem flags_are_caller_bits_or_UTF8:
  "eTextRep (sqlite3_create_go_function SQLITE_UTF8 db zName nArg flags pApp) =
     SQLITE_UTF8 OR flags
   \<and> eTextRep (sqlite3_create_go_window_function SQLITE_UTF8 db zName nArg flags pApp) =
     SQLITE_UTF8 OR flags
   \<and> eTextRep (sqlite3_create_go_aggregate_function SQLITE_UTF8 db zName nArg flags pApp) =
     SQLITE_UTF8 OR flags
   \<and> (\<forall>i. bit (eTextRep (sqlite3_create_go_function SQLITE_UTF8 db zName nArg flags pApp)) i
          = (bit SQLITE_UTF8 i \<or> bit flags i))
   \<and> (\<forall>i. bit (eTextRep
                (sqlite3_create_go_window_function SQLITE_UTF8 db zName nArg flags pApp)) i
          = (bit SQLITE_UTF8 i \<or> bit flags i))
   \<and> (\<forall>i. bit (eTextRep
                (sqlite3_create_go_aggregate_function SQLITE_UTF8 db zName nArg flags pApp)) i
          = (bit SQLITE_UTF8 i \<or> bit flags i))"
  by (simp add: sqlite3_create_go_function_def sqlite3_create_go_window_function_def
      sqlite3_create_go_aggregate_function_def bit_or_iff)

text \<open>
  C1, evaluated on the code. The entry point named for window functions passes NULL for
  the value and the inverse callback, at every input; it installs step, final and destroy
  only.
\<close>

theorem window_entry_point_passes_null_value_and_inverse:
  "wired (sqlite3_create_go_window_function SQLITE_UTF8 db zName nArg flags pApp) =
     (\<lambda>s. None)(xStep := Some go_step, xFinal := Some go_final, xDestroy := Some go_destroy)
   \<and> wired (sqlite3_create_go_window_function SQLITE_UTF8 db zName nArg flags pApp) xValue
       = None
   \<and> wired (sqlite3_create_go_window_function SQLITE_UTF8 db zName nArg flags pApp) xInverse
       = None"
proof -
  have "wired (sqlite3_create_go_window_function SQLITE_UTF8 db zName nArg flags pApp) s =
          ((\<lambda>s. None)(xStep := Some go_step, xFinal := Some go_final,
             xDestroy := Some go_destroy)) s" for s
    by (cases s) (simp_all add: sqlite3_create_go_window_function_def)
  then show ?thesis
    by (auto simp: sqlite3_create_go_window_function_def)
qed

text \<open>
  The sibling entry point, named for aggregates, is the one that installs all four of
  step, final, value and inverse (and destroy).
\<close>

theorem aggregate_entry_point_installs_all_four:
  "wired (sqlite3_create_go_aggregate_function SQLITE_UTF8 db zName nArg flags pApp) =
     (\<lambda>s. None)(xStep := Some go_step, xFinal := Some go_final, xValue := Some go_value,
        xInverse := Some go_inverse, xDestroy := Some go_destroy)"
proof (rule ext)
  fix s
  show "wired (sqlite3_create_go_aggregate_function SQLITE_UTF8 db zName nArg flags pApp) s =
          ((\<lambda>s. None)(xStep := Some go_step, xFinal := Some go_final,
             xValue := Some go_value, xInverse := Some go_inverse,
             xDestroy := Some go_destroy)) s"
    by (cases s) (simp_all add: sqlite3_create_go_aggregate_function_def)
qed

text \<open>
  C10. All four entry points pass the one destroy callback go_destroy as the destructor,
  and hand the connection, the name, the arity and the handle to the engine as they
  received them. Running an entry point is running that one engine call: status and
  engine state are the engine's own, for every engine, so the bridge adds no state, no
  check and no effect.
\<close>

theorem bridge_forwards_arguments_and_status:
  "wired (sqlite3_create_go_collation SQLITE_UTF8 db zName pApp) xDestroy = Some go_destroy
   \<and> wired (sqlite3_create_go_function SQLITE_UTF8 db zName nArg flags pApp) xDestroy
       = Some go_destroy
   \<and> wired (sqlite3_create_go_window_function SQLITE_UTF8 db zName nArg flags pApp) xDestroy
       = Some go_destroy
   \<and> wired (sqlite3_create_go_aggregate_function SQLITE_UTF8 db zName nArg flags pApp) xDestroy
       = Some go_destroy
   \<and> connection (sqlite3_create_go_collation SQLITE_UTF8 db zName pApp) = db
   \<and> connection (sqlite3_create_go_function SQLITE_UTF8 db zName nArg flags pApp) = db
   \<and> connection (sqlite3_create_go_window_function SQLITE_UTF8 db zName nArg flags pApp) = db
   \<and> connection (sqlite3_create_go_aggregate_function SQLITE_UTF8 db zName nArg flags pApp) = db
   \<and> name_arg (sqlite3_create_go_collation SQLITE_UTF8 db zName pApp) = zName
   \<and> name_arg (sqlite3_create_go_function SQLITE_UTF8 db zName nArg flags pApp) = zName
   \<and> name_arg (sqlite3_create_go_window_function SQLITE_UTF8 db zName nArg flags pApp) = zName
   \<and> name_arg (sqlite3_create_go_aggregate_function SQLITE_UTF8 db zName nArg flags pApp) = zName
   \<and> arity_arg (sqlite3_create_go_function SQLITE_UTF8 db zName nArg flags pApp) = Some nArg
   \<and> arity_arg (sqlite3_create_go_window_function SQLITE_UTF8 db zName nArg flags pApp)
       = Some nArg
   \<and> arity_arg (sqlite3_create_go_aggregate_function SQLITE_UTF8 db zName nArg flags pApp)
       = Some nArg
   \<and> app_data (sqlite3_create_go_collation SQLITE_UTF8 db zName pApp) = pApp
   \<and> app_data (sqlite3_create_go_function SQLITE_UTF8 db zName nArg flags pApp) = pApp
   \<and> app_data (sqlite3_create_go_window_function SQLITE_UTF8 db zName nArg flags pApp) = pApp
   \<and> app_data (sqlite3_create_go_aggregate_function SQLITE_UTF8 db zName nArg flags pApp) = pApp
   \<and> perform engine (sqlite3_create_go_collation SQLITE_UTF8 db zName pApp) w =
       engine (sqlite3_create_collation_v2 db zName SQLITE_UTF8 pApp (Some go_compare)
         (Some go_destroy)) w
   \<and> perform engine (sqlite3_create_go_function SQLITE_UTF8 db zName nArg flags pApp) w =
       engine (sqlite3_create_function_v2 db zName nArg (SQLITE_UTF8 OR flags) pApp
         (Some go_func) None None (Some go_destroy)) w
   \<and> perform engine (sqlite3_create_go_window_function SQLITE_UTF8 db zName nArg flags pApp) w =
       engine (sqlite3_create_window_function db zName nArg (SQLITE_UTF8 OR flags) pApp
         (Some go_step) (Some go_final) None None (Some go_destroy)) w
   \<and> perform engine
         (sqlite3_create_go_aggregate_function SQLITE_UTF8 db zName nArg flags pApp) w =
       engine (sqlite3_create_window_function db zName nArg (SQLITE_UTF8 OR flags) pApp
         (Some go_step) (Some go_final) (Some go_value) (Some go_inverse)
         (Some go_destroy)) w"
  by (simp add: sqlite3_create_go_collation_def sqlite3_create_go_function_def
      sqlite3_create_go_window_function_def sqlite3_create_go_aggregate_function_def
      perform_def)

text \<open>
  C5 as stated fails on the bridge. The empty name breaks the contract whatever the
  supported flags are, yet the scalar entry point hands it to the engine as it is; with an
  engine that checks nothing the registration is made and the status is SQLITE_OK.
\<close>

theorem empty_name_is_forwarded_and_registered:
  "\<not> contract (- 1) (Some '''') 1 0
   \<and> name_arg (sqlite3_create_go_function 1 5 (Some '''') 1 0 7) = Some ''''
   \<and> perform (accepting SQLITE_OK) (sqlite3_create_go_function 1 5 (Some '''') 1 0 7) [] =
       (SQLITE_OK, [sqlite3_create_function_v2 5 (Some '''') 1 1 7 (Some go_func) None None
              (Some go_destroy)])"
  by (simp add: contract_def sqlite3_create_go_function_def perform_def accepting_def)

text \<open>
  C5, amended. No entry point checks the name, the arity or the flags. For every input,
  inside the contract or not, the name and the arity reach the engine unchanged and the
  flags ORed with SQLITE_UTF8, and the registration fails exactly when the engine fails
  that call, with the engine's status: rejecting a violation is left to the engine.
\<close>

theorem registration_status_is_the_engines_verdict:
  "fst (perform engine (sqlite3_create_go_collation SQLITE_UTF8 db zName pApp) w) =
     fst (engine (sqlite3_create_collation_v2 db zName SQLITE_UTF8 pApp (Some go_compare)
       (Some go_destroy)) w)
   \<and> fst (perform engine (sqlite3_create_go_function SQLITE_UTF8 db zName nArg flags pApp) w) =
     fst (engine (sqlite3_create_function_v2 db zName nArg (SQLITE_UTF8 OR flags) pApp
       (Some go_func) None None (Some go_destroy)) w)
   \<and> fst (perform engine
            (sqlite3_create_go_window_function SQLITE_UTF8 db zName nArg flags pApp) w) =
     fst (engine (sqlite3_create_window_function db zName nArg (SQLITE_UTF8 OR flags) pApp
       (Some go_step) (Some go_final) None None (Some go_destroy)) w)
   \<and> fst (perform engine
            (sqlite3_create_go_aggregate_function SQLITE_UTF8 db zName nArg flags pApp) w) =
     fst (engine (sqlite3_create_window_function db zName nArg (SQLITE_UTF8 OR flags) pApp
       (Some go_step) (Some go_final) (Some go_value) (Some go_inverse)
       (Some go_destroy)) w)"
  by (simp add: sqlite3_create_go_collation_def sqlite3_create_go_function_def
      sqlite3_create_go_window_function_def sqlite3_create_go_aggregate_function_def
      perform_def)

section \<open>The life of a handle\<close>

subsection \<open>The invariants hold along every history\<close>

lemma entry_bridge_made: "bridge_made (entry U b)"
  by (cases b)
     (simp_all add: bridge_made_def sqlite3_create_go_collation_def
        sqlite3_create_go_function_def sqlite3_create_go_window_function_def
        sqlite3_create_go_aggregate_function_def)














lemma released_events:
  "e \<in> set (released rs) \<Longrightarrow> \<exists>r\<in>set rs. \<exists>d. e = Called d (app_data (snd r))"
  by (induction rs) (auto simp: released_def release_def split: option.splits)

lemma unique_keys_step: "unique_keys s \<Longrightarrow> unique_keys (step U verdict a s)"
proof (cases a)
  case (Register b)
  assume "unique_keys s"
  then show ?thesis
    using Register
    by (auto simp: unique_keys_def perform_def engine_register_def distinct_map_filter)
next
  case (Use k sl)
  assume "unique_keys s"
  then show ?thesis
    using Use by (auto simp: unique_keys_def engine_use_def split: option.splits)
next
  case Shutdown
  then show ?thesis by (simp add: unique_keys_def engine_shutdown_def)
qed

lemma accounted_register: 
  assumes "accounted s"
  shows "accounted (snd (engine_register verdict c s))"
proof (cases "verdict c s = SQLITE_OK")
  case False
  then show ?thesis using assms by (simp add: engine_register_def)
next
  case True
  have rel: "Owned h \<in> set (history s)"
    if "Called f h \<in> set (released (filter (\<lambda>r. fst r = key_of c) (table s)))" for f h
  proof -
    from released_events [OF that] obtain r d
      where r: "r \<in> set (filter (\<lambda>r. fst r = key_of c) (table s))" and e: "Called f h = Called d (app_data (snd r))"
      by blast
    from r have "r \<in> set (table s)" by simp
    moreover from e have "h = app_data (snd r)" by simp
    ultimately show ?thesis using assms by (simp add: accounted_def)
  qed
  show ?thesis
    using assms True rel
    by (auto simp: accounted_def engine_register_def)
qed

lemma accounted_use:
  assumes "accounted s"
  shows "accounted (engine_use k sl s)"
proof (cases "map_of (table s) k")
  case None
  then show ?thesis using assms by (simp add: engine_use_def)
next
  case (Some c)
  then have "(k, c) \<in> set (table s)" by (rule map_of_SomeD)
  then have "Owned (app_data c) \<in> set (history s)"
    using assms by (auto simp: accounted_def)
  then show ?thesis
    using assms Some by (auto simp: accounted_def engine_use_def split: option.splits)
qed

lemma accounted_shutdown:
  assumes "accounted s"
  shows "accounted (engine_shutdown s)"
proof -
  have rel: "Owned h \<in> set (history s)" if "Called f h \<in> set (released (table s))" for f h
  proof -
    from released_events [OF that] obtain r d
      where r: "r \<in> set (table s)" and e: "Called f h = Called d (app_data (snd r))"
      by blast
    from r have "r \<in> set (table s)" by simp
    moreover from e have "h = app_data (snd r)" by simp
    ultimately show ?thesis using assms by (simp add: accounted_def)
  qed
  show ?thesis
    using assms rel by (auto simp: accounted_def engine_shutdown_def)
qed

lemma accounted_step: "accounted s \<Longrightarrow> accounted (step U verdict a s)"
  by (cases a) (simp_all add: perform_def accounted_register accounted_use accounted_shutdown)

lemma run_unique_keys: "unique_keys s \<Longrightarrow> unique_keys (run U verdict acts s)"
  unfolding run_def by (induction acts arbitrary: s) (simp_all add: unique_keys_step)

lemma run_accounted: "accounted s \<Longrightarrow> accounted (run U verdict acts s)"
  unfolding run_def by (induction acts arbitrary: s) (simp_all add: accounted_step)

lemma history_step: "\<exists>ext. history (step U verdict a s) = history s @ ext"
  by (cases a)
     (auto simp: perform_def engine_register_def engine_use_def engine_shutdown_def
        split: option.splits)

lemma history_run: "\<exists>ext. history (run U verdict acts s) = history s @ ext"
  unfolding run_def
proof (induction acts arbitrary: s)
  case Nil
  then show ?case by simp
next
  case (Cons a acts)
  obtain e1 where e1: "history (step U verdict a s) = history s @ e1"
    using history_step by blast
  obtain e2 where
    "history (fold (step U verdict) acts (step U verdict a s)) =
       history (step U verdict a s) @ e2"
    using Cons.IH by blast
  with e1 show ?case by simp
qed

lemma the_entry_of_a_key:
  "distinct (map fst rs) \<Longrightarrow> map_of rs k = Some c \<Longrightarrow> filter (\<lambda>r. fst r = k) rs = [(k, c)]"
proof (induction rs)
  case Nil
  then show ?case by simp
next
  case (Cons r rs)
  show ?case
  proof (cases "fst r = k")
    case True
    with Cons.prems have "r = (k, c)" by (cases r) simp
    moreover have "k \<notin> fst ` set rs"
      using Cons.prems(1) True by simp
    then have "filter (\<lambda>r. fst r = k) rs = []"
      unfolding filter_empty_conv by (metis imageI)
    ultimately show ?thesis by simp
  next
    case False
    with Cons show ?thesis by (cases r) (simp split: if_splits)
  qed
qed


subsection \<open>The bridge hands over what the caller passed\<close>

lemma app_data_entry: "app_data (entry U b) = handle_of b"
  by (cases b)
     (simp_all add: sqlite3_create_go_collation_def sqlite3_create_go_function_def
        sqlite3_create_go_window_function_def sqlite3_create_go_aggregate_function_def)

lemma key_of_entry: "key_of (entry U b) = name_and_arity b"
  by (cases b)
     (simp_all add: key_of_def sqlite3_create_go_collation_def sqlite3_create_go_function_def
        sqlite3_create_go_window_function_def sqlite3_create_go_aggregate_function_def)







subsection \<open>Evaluating a history\<close>

lemmas lifecycle_eval =
  run_def perform_def engine_register_def engine_use_def engine_shutdown_def released_def
  release_def key_of_def start_def handles_def accept_all_def SQLITE_OK_def succeeds_def
  sqlite3_create_go_collation_def sqlite3_create_go_function_def
  sqlite3_create_go_window_function_def sqlite3_create_go_aggregate_function_def

subsection \<open>Destroy, once per successful registration\<close>



subsection \<open>Replacement\<close>

text \<open>
  C6 as stated fails on the engine as the specification describes it. Handle 7 is the
  scalar f/1 and handle 8 the scalar g/1; g is used, so handle 8 serves a call; then
  handle 8 is registered as f/1 too and replaces handle 7. No call is in flight at any
  registration. The new handle has served a call before the old one is destroyed.
\<close>

theorem new_handle_serves_before_old_is_destroyed:
  "history (run 1 accept_all
     [Register (Scalar 5 (Some ''f'') 1 0 7), Register (Scalar 5 (Some ''g'') 1 0 8),
      Use (Some ''g'', Some 1) xFunc, Register (Scalar 5 (Some ''f'') 1 0 8)] start)
     = [Owned 7, Owned 8, Called go_func 8, Called go_destroy 7, Owned 8]
   \<and> map_of (table (run 1 accept_all
     [Register (Scalar 5 (Some ''f'') 1 0 7), Register (Scalar 5 (Some ''g'') 1 0 8),
      Use (Some ''g'', Some 1) xFunc] start)) (name_and_arity (Scalar 5 (Some ''f'') 1 0 8))
     = Some (entry 1 (Scalar 5 (Some ''f'') 1 0 7))
   \<and> succeeds 1 accept_all (Scalar 5 (Some ''f'') 1 0 8) (run 1 accept_all
     [Register (Scalar 5 (Some ''f'') 1 0 7), Register (Scalar 5 (Some ''g'') 1 0 8),
      Use (Some ''g'', Some 1) xFunc] start)"
  by (simp add: lifecycle_eval)

text \<open>
  C6, amended, on the engine as the specification describes it. In a connection driven
  through the four entry points, let an entry-point call succeed under a name and arity
  that an earlier entry-point call registered. Then, however the history goes on, the
  destroy of the old call's handle comes first, the engine's taking ownership of the new
  call's handle comes directly after it, and everything else comes later: the old handle is
  destroyed before the new registration serves any call. If the engine has not owned the
  new handle before, the handle has served no call at all before that destroy; a handle
  that is also registered under another name may have.
\<close>

theorem replacement_destroys_old_before_new_is_owned:
  assumes reach: "s = run U verdict acts start"
    and old: "map_of (table s) (name_and_arity b) = Some (entry U b0)"
    and ok: "succeeds U verdict b s"
  shows "(\<exists>later. history (run U verdict rest (step U verdict (Register b) s)) =
            history s @ Called go_destroy (handle_of b0) # Owned (handle_of b) # later)
         \<and> (Owned (handle_of b) \<notin> set (history s) \<longrightarrow>
              (\<forall>f. Called f (handle_of b) \<notin> set (history s)))"
proof -
  have uk: "unique_keys s"
    using reach run_unique_keys [of start] by (simp add: unique_keys_def start_def)
  have acc: "accounted s"
    using reach run_accounted [of start] by (simp add: accounted_def start_def)
  have one: "filter (\<lambda>r. fst r = key_of (entry U b)) (table s) =
      [(key_of (entry U b), entry U b0)]"
    using uk old by (intro the_entry_of_a_key) (simp_all add: unique_keys_def key_of_entry)
  have rel: "released [(key_of (entry U b), entry U b0)] = [Called go_destroy (handle_of b0)]"
    using entry_bridge_made [of U b0]
    by (simp add: released_def release_def bridge_made_def app_data_entry)
  have verdict: "verdict (entry U b) s = SQLITE_OK"
    using ok by (simp add: succeeds_def perform_def engine_register_def split: if_splits)
  have now: "history (step U verdict (Register b) s) =
      history s @ [Called go_destroy (handle_of b0), Owned (handle_of b)]"
    using verdict by (simp add: perform_def engine_register_def one rel app_data_entry)
  obtain ext where "history (run U verdict rest (step U verdict (Register b) s)) =
      history (step U verdict (Register b) s) @ ext"
    using history_run by blast
  with now have first: "\<exists>later. history (run U verdict rest (step U verdict (Register b) s)) =
      history s @ Called go_destroy (handle_of b0) # Owned (handle_of b) # later"
    by simp
  have second: "Owned (handle_of b) \<notin> set (history s) \<longrightarrow>
      (\<forall>f. Called f (handle_of b) \<notin> set (history s))"
    using acc by (auto simp: accounted_def)
  from first second show ?thesis by blast
qed

text \<open>
  A history for C6: handle 7 is the scalar f/1; handle 8 replaces it as an aggregate, is
  used once, and the engine shuts down.
\<close>

theorem replacement_destroys_old_before_new_is_owned_witness:
  "map_of (table (run 1 accept_all [Register (Scalar 5 (Some ''f'') 1 0 7)] start))
      (name_and_arity (Aggregate 5 (Some ''f'') 1 0 8))
     = Some (entry 1 (Scalar 5 (Some ''f'') 1 0 7))
   \<and> succeeds 1 accept_all (Aggregate 5 (Some ''f'') 1 0 8)
        (run 1 accept_all [Register (Scalar 5 (Some ''f'') 1 0 7)] start)
   \<and> history (run 1 accept_all [Register (Scalar 5 (Some ''f'') 1 0 7)] start) = [Owned 7]
   \<and> history (run 1 accept_all [Use (Some ''f'', Some 1) xStep, Shutdown]
          (step 1 accept_all (Register (Aggregate 5 (Some ''f'') 1 0 8))
            (run 1 accept_all [Register (Scalar 5 (Some ''f'') 1 0 7)] start))) =
        [Owned 7] @ Called go_destroy 7 # Owned 8 # [Called go_step 8, Called go_destroy 8]"
  using replacement_destroys_old_before_new_is_owned
    [of "run 1 accept_all [Register (Scalar 5 (Some ''f'') 1 0 7)] start" 1 accept_all
        "[Register (Scalar 5 (Some ''f'') 1 0 7)]" "Aggregate 5 (Some ''f'') 1 0 8"
        "Scalar 5 (Some ''f'') 1 0 7"
        "[Use (Some ''f'', Some 1) xStep, Shutdown]", OF refl]
  by (simp add: lifecycle_eval)

end
